theory Spec2Isabelle
  imports Main "HOL-Library.Char_ord" "HOL-Library.List_Lexorder"
begin

section \<open>Data model\<close>

text \<open>
  The repository is an offline-first task API: \<^verbatim>\<open>src/db/database.ts\<close> wraps an SQLite
  database with the two tables \<^verbatim>\<open>tasks\<close> and \<^verbatim>\<open>sync_queue\<close>,
  \<^verbatim>\<open>src/services/taskService.ts\<close> writes task rows and queue rows, and
  \<^verbatim>\<open>src/services/syncService.ts\<close> posts the queued payloads to a remote server.

  Timestamps are the ISO-8601 strings of \<^verbatim>\<open>new Date().toISOString()\<close>; SQLite stores
  them as TEXT and compares them bytewise, which is the lexicographic order on
  \<^typ>\<open>string\<close>. The clock and the UUID generator are inputs of the model: every
  operation that reads them takes the value read as an argument.
\<close>

subsection \<open>JSON values and the text of a data cell\<close>

datatype json =
    JNull
  | JBool bool
  | JNumber int
  | JString string
  | JArray "json list"
  | JObject "(string \<times> json) list"

text \<open>
  The column \<^verbatim>\<open>sync_queue.data\<close> is TEXT. The code writes it with
  \<^verbatim>\<open>JSON.stringify\<close> only and reads it with \<^verbatim>\<open>JSON.parse\<close> only, so a cell is
  modelled up to that round trip: \<open>Stringified j\<close> is the text \<^verbatim>\<open>JSON.stringify\<close>
  produces for \<open>j\<close>, which \<^verbatim>\<open>JSON.parse\<close> reads back as \<open>j\<close>; \<open>Malformed s\<close> is
  a text \<open>s\<close> that is not JSON, on which \<^verbatim>\<open>JSON.parse\<close> throws a SyntaxError.
\<close>

datatype json_text = Stringified json | Malformed string

datatype failure =
    SQLITE_CONSTRAINT    \<comment> \<open>a rejected \<^verbatim>\<open>db.run\<close>: PRIMARY KEY violated\<close>
  | SQLITE_MISMATCH      \<comment> \<open>a rejected \<^verbatim>\<open>db.all\<close>: the LIMIT is not a 64-bit integer\<close>
  | SyntaxError          \<comment> \<open>thrown by \<^verbatim>\<open>JSON.parse\<close>\<close>

definition JSON_stringify :: "json \<Rightarrow> json_text" where
  "JSON_stringify j = Stringified j"

fun JSON_parse :: "json_text \<Rightarrow> failure + json" where
  "JSON_parse (Stringified j) = Inr j"
| "JSON_parse (Malformed s) = Inl SyntaxError"

subsection \<open>Tasks\<close>

text \<open>
  \<^verbatim>\<open>interface Task\<close> of \<^verbatim>\<open>src/types/index.ts\<close>, with the eight fields every Task
  object of \<^verbatim>\<open>taskService.ts\<close> carries. A row of the table \<^verbatim>\<open>tasks\<close> has the two
  further columns \<^verbatim>\<open>server_id\<close> and \<^verbatim>\<open>last_synced_at\<close> (NULL is \<open>None\<close>). The
  INTEGER columns \<^verbatim>\<open>completed\<close> and \<^verbatim>\<open>is_deleted\<close> hold 0 or 1 and are read back
  with \<^verbatim>\<open>!!\<close>; they are booleans here. Fields carry the prefix \<open>t_\<close>.
\<close>

record task =
  t_id :: string
  t_title :: string
  t_description :: string
  t_completed :: bool
  t_created_at :: string
  t_updated_at :: string
  t_is_deleted :: bool
  t_sync_status :: string

record task_row = task +
  t_server_id :: "string option"
  t_last_synced_at :: "string option"

text \<open>The request body of a create or update: \<^verbatim>\<open>Partial<Task>\<close>, absent fields are \<open>None\<close>.\<close>

record task_data =
  d_title :: "string option"
  d_description :: "string option"
  d_completed :: "bool option"

subsection \<open>Queue rows\<close>

text \<open>
  A row of the table \<^verbatim>\<open>sync_queue\<close>. The column \<^verbatim>\<open>id\<close> is \<^verbatim>\<open>TEXT PRIMARY KEY\<close>
  without NOT NULL, so SQLite accepts a row without an id and stores NULL; the inserts of
  \<^verbatim>\<open>taskService.ts\<close> and \<^verbatim>\<open>syncService.ts\<close> name no id. Fields carry the prefix
  \<open>q_\<close>.
\<close>

record queue_row =
  q_id :: "string option"
  q_task_id :: string
  q_operation :: string
  q_data :: json_text
  q_status :: string
  q_created_at :: string
  q_retry_count :: int
  q_error_message :: "string option"
  q_last_attempt :: "string option"

text \<open>\<^verbatim>\<open>interface SyncQueueItem\<close>, the object \<^verbatim>\<open>getSyncQueue\<close> builds from a row.\<close>

record SyncQueueItem =
  i_id :: "string option"
  i_taskId :: string
  i_operation :: string
  i_payload :: json
  i_status :: string
  i_created_at :: string
  i_retry_count :: int
  i_lastAttempt :: "string option"
  i_error_message :: "string option"

subsection \<open>The store\<close>

text \<open>
  Both tables, each a list of rows in rowid order. The code never deletes a row, so rowid
  order is insertion order, and it is the order in which SQLite scans a table for a
  \<^verbatim>\<open>SELECT\<close> without \<^verbatim>\<open>ORDER BY\<close>.
\<close>

record store =
  tasks :: "task_row list"
  sync_queue :: "queue_row list"

definition empty_store :: store where
  "empty_store = \<lparr>tasks = [], sync_queue = []\<rparr>"

section \<open>The SQL statements of the code\<close>

text \<open>
  \<^verbatim>\<open>INSERT INTO tasks (id, title, description, completed, is_deleted, sync_status,
  created_at, updated_at)\<close>: the two unnamed columns are NULL. The statement is rejected when
  the primary key is taken.
\<close>

definition insert_task :: "task \<Rightarrow> store \<Rightarrow> failure + store" where
  "insert_task t st =
     (if t_id t \<in> set (map t_id (tasks st)) then Inl SQLITE_CONSTRAINT
      else Inr (st\<lparr>tasks := tasks st @
             [\<lparr>t_id = t_id t, t_title = t_title t, t_description = t_description t,
               t_completed = t_completed t, t_created_at = t_created_at t,
               t_updated_at = t_updated_at t, t_is_deleted = False,
               t_sync_status = t_sync_status t,
               t_server_id = None, t_last_synced_at = None\<rparr>]\<rparr>))"

text \<open>
  \<^verbatim>\<open>INSERT INTO sync_queue (task_id, operation, data, created_at)\<close>: no id (NULL), and
  the column defaults \<^verbatim>\<open>status = 'pending'\<close>, \<^verbatim>\<open>retry_count = 0\<close>. A NULL id never
  violates the primary key, and SQLite does not enforce the foreign key unless asked to (the
  code never asks), so the statement always succeeds.
\<close>

definition insert_sync_queue :: "string \<Rightarrow> string \<Rightarrow> json_text \<Rightarrow> string \<Rightarrow> store \<Rightarrow> store" where
  "insert_sync_queue taskId operation dat created st =
     st\<lparr>sync_queue := sync_queue st @
        [\<lparr>q_id = None, q_task_id = taskId, q_operation = operation, q_data = dat,
          q_status = ''pending'', q_created_at = created, q_retry_count = 0,
          q_error_message = None, q_last_attempt = None\<rparr>]\<rparr>"

text \<open>
  \<^verbatim>\<open>LIMIT ?\<close> with the batch size as parameter. The batch size is a JavaScript number;
  the model covers the integral ones. The driver binds an integral number as an integer
  when it fits 32 bits and as a double otherwise, and SQLite converts an integral double
  strictly between \<open>-2\<^sup>6\<^sup>3\<close> and \<open>2\<^sup>6\<^sup>3\<close> to the integer it denotes. With such a
  limit SQLite returns at most that many rows, and all rows when the limit is negative ("if
  the LIMIT expression evaluates to a negative value, then there is no upper bound on the
  number of rows returned"). On any other number (one of magnitude \<open>2\<^sup>6\<^sup>3\<close> or more, and
  likewise one that is not integral, which the model leaves out) SQLite rejects the
  statement with SQLITE_MISMATCH, and \<^verbatim>\<open>db.all\<close> rejects before a row is read.
\<close>

definition sql_limit :: "int \<Rightarrow> 'a list \<Rightarrow> failure + 'a list" where
  "sql_limit n rows =
     (if n \<le> - 9223372036854775808 \<or> 9223372036854775808 \<le> n then Inl SQLITE_MISMATCH
      else if n < 0 then Inr rows
      else Inr (take (nat n) rows))"

section \<open>\<^verbatim>\<open>src/db/database.ts\<close>\<close>

text \<open>
  \<^verbatim>\<open>Database.addToSyncQueue\<close>: the id is a fresh UUID, \<^verbatim>\<open>created_at\<close> is the column
  default CURRENT_TIMESTAMP (\<open>now\<close>). The insert is rejected when the id is taken.
\<close>

definition addToSyncQueue :: "string \<Rightarrow> string \<Rightarrow> string \<Rightarrow> string \<Rightarrow> json \<Rightarrow> store \<Rightarrow> failure + store" where
  "addToSyncQueue uuid now taskId operation payload st =
     (if Some uuid \<in> set (map q_id (sync_queue st)) then Inl SQLITE_CONSTRAINT
      else Inr (st\<lparr>sync_queue := sync_queue st @
             [\<lparr>q_id = Some uuid, q_task_id = taskId, q_operation = operation,
               q_data = JSON_stringify payload, q_status = ''pending'', q_created_at = now,
               q_retry_count = 0, q_error_message = None, q_last_attempt = None\<rparr>]\<rparr>))"

text \<open>
  \<^verbatim>\<open>Database.getSyncQueue\<close>:
  \<^verbatim>\<open>SELECT * FROM sync_queue WHERE status = 'pending' ORDER BY created_at ASC LIMIT ?\<close>,
  then every selected row becomes a \<^verbatim>\<open>SyncQueueItem\<close>. The call rejects when the
  query is rejected, and when \<^verbatim>\<open>JSON.parse(row.data)\<close> throws on a selected row. An empty \<^verbatim>\<open>last_attempt\<close> is falsy; the Date
  built from a non-empty one is modelled by the string it is built from. The sort is
  stable: SQL leaves the order of rows with equal \<^verbatim>\<open>created_at\<close> open, and they stay
  in table order here.
\<close>

definition row_to_item :: "queue_row \<Rightarrow> failure + SyncQueueItem" where
  "row_to_item row =
     (case JSON_parse (q_data row) of
        Inl e \<Rightarrow> Inl e
      | Inr payload \<Rightarrow>
          Inr \<lparr>i_id = q_id row, i_taskId = q_task_id row, i_operation = q_operation row,
               i_payload = payload, i_status = q_status row,
               i_created_at = q_created_at row, i_retry_count = q_retry_count row,
               i_lastAttempt = (case q_last_attempt row of
                                 None \<Rightarrow> None
                               | Some s \<Rightarrow> if s = [] then None else Some s),
               i_error_message = q_error_message row\<rparr>)"

fun rows_map :: "queue_row list \<Rightarrow> failure + SyncQueueItem list" where
  "rows_map [] = Inr []"
| "rows_map (row # rows) =
     (case row_to_item row of
        Inl e \<Rightarrow> Inl e
      | Inr item \<Rightarrow> (case rows_map rows of Inl e \<Rightarrow> Inl e | Inr items \<Rightarrow> Inr (item # items)))"

definition select_pending :: "int \<Rightarrow> store \<Rightarrow> failure + queue_row list" where
  "select_pending batchSize st =
     sql_limit batchSize
       (sort_key q_created_at (filter (\<lambda>row. q_status row = ''pending'') (sync_queue st)))"

definition getSyncQueue :: "int \<Rightarrow> store \<Rightarrow> failure + SyncQueueItem list" where
  "getSyncQueue batchSize st =
     (case select_pending batchSize st of
        Inl e \<Rightarrow> Inl e
      | Inr rows \<Rightarrow> rows_map rows)"

text \<open>
  \<^verbatim>\<open>Database.updateSyncStatus\<close>:
  \<^verbatim>\<open>UPDATE sync_queue SET status = ?, last_attempt = ?, retry_count = retry_count + 1,
  error_message = ? WHERE id = ?\<close> with \<^verbatim>\<open>errorMessage || null\<close> for the message. A row
  with a NULL id never satisfies \<^verbatim>\<open>id = ?\<close>.
\<close>

definition updateSyncStatus :: "string \<Rightarrow> string \<Rightarrow> string \<Rightarrow> string option \<Rightarrow> store \<Rightarrow> store" where
  "updateSyncStatus now ident status errorMessage st =
     st\<lparr>sync_queue :=
        map (\<lambda>row. if q_id row = Some ident
                   then row\<lparr>q_status := status, q_last_attempt := Some now,
                            q_retry_count := q_retry_count row + 1,
                            q_error_message :=
                              (case errorMessage of
                                 None \<Rightarrow> None
                               | Some m \<Rightarrow> if m = [] then None else Some m)\<rparr>
                   else row)
            (sync_queue st)\<rparr>"

section \<open>\<^verbatim>\<open>src/services/taskService.ts\<close>\<close>

text \<open>\<^verbatim>\<open>String(x)\<close> on a value that is a string or undefined.\<close>

definition String_of :: "string option \<Rightarrow> string" where
  "String_of x = (case x of None \<Rightarrow> ''undefined'' | Some s \<Rightarrow> s)"

text \<open>
  The object \<^verbatim>\<open>JSON.stringify\<close> sees for a Task of this service: the eight keys in
  the order the object literals of \<^verbatim>\<open>createTask\<close> and \<^verbatim>\<open>getTask\<close> write them.
\<close>

definition task_json :: "task \<Rightarrow> json" where
  "task_json t =
     JObject [(''id'', JString (t_id t)), (''title'', JString (t_title t)),
              (''description'', JString (t_description t)),
              (''completed'', JBool (t_completed t)),
              (''is_deleted'', JBool (t_is_deleted t)),
              (''sync_status'', JString (t_sync_status t)),
              (''created_at'', JString (t_created_at t)),
              (''updated_at'', JString (t_updated_at t))]"

text \<open>
  \<^verbatim>\<open>TaskService.createTask\<close>. \<open>uuid\<close> is what \<^verbatim>\<open>uuidv4()\<close> returned and \<open>now\<close>
  what the clock read. The task row is inserted first; when that insert is rejected the
  call throws and nothing is written.
\<close>

definition createTask :: "string \<Rightarrow> string \<Rightarrow> task_data \<Rightarrow> store \<Rightarrow> (failure + task) \<times> store" where
  "createTask uuid now taskData st =
     (let task = \<lparr>t_id = uuid,
                  t_title = String_of (d_title taskData),
                  t_description = (case d_description taskData of None \<Rightarrow> [] | Some d \<Rightarrow> d),
                  t_completed = (case d_completed taskData of None \<Rightarrow> False | Some c \<Rightarrow> c),
                  t_created_at = now,
                  t_updated_at = now,
                  t_is_deleted = False,
                  t_sync_status = ''pending''\<rparr>
      in case insert_task task st of
           Inl e \<Rightarrow> (Inl e, st)
         | Inr st1 \<Rightarrow>
             (Inr task,
              insert_sync_queue (t_id task) ''create'' (JSON_stringify (task_json task)) now st1))"

text \<open>\<^verbatim>\<open>TaskService.getTask\<close>: \<^verbatim>\<open>SELECT * FROM tasks WHERE id = ?\<close>, first row or null.\<close>

definition getTask :: "string \<Rightarrow> store \<Rightarrow> task option" where
  "getTask ident st =
     (case find (\<lambda>row. t_id row = ident) (tasks st) of
        None \<Rightarrow> None
      | Some row \<Rightarrow>
          Some \<lparr>t_id = t_id row, t_title = t_title row, t_description = t_description row,
                t_completed = t_completed row, t_created_at = t_created_at row,
                t_updated_at = t_updated_at row, t_is_deleted = t_is_deleted row,
                t_sync_status = t_sync_status row\<rparr>)"

text \<open>
  \<^verbatim>\<open>TaskService.updateTask\<close>: null for an absent or deleted task; otherwise
  \<^verbatim>\<open>UPDATE tasks SET title=?, description=?, completed=?, updated_at=?, sync_status=?
  WHERE id=?\<close> and a queue row with the merged task.
\<close>

definition updateTask :: "string \<Rightarrow> string \<Rightarrow> task_data \<Rightarrow> store \<Rightarrow> task option \<times> store" where
  "updateTask now ident updates st =
     (case getTask ident st of
        None \<Rightarrow> (None, st)
      | Some existing \<Rightarrow>
          if t_is_deleted existing then (None, st)
          else
            let updatedTask = existing
                  \<lparr>t_title := (case d_title updates of None \<Rightarrow> t_title existing | Some x \<Rightarrow> x),
                   t_description :=
                     (case d_description updates of None \<Rightarrow> t_description existing | Some x \<Rightarrow> x),
                   t_completed :=
                     (case d_completed updates of None \<Rightarrow> t_completed existing | Some x \<Rightarrow> x),
                   t_updated_at := now,
                   t_sync_status := ''pending''\<rparr>;
                st1 = st\<lparr>tasks :=
                  map (\<lambda>row. if t_id row = ident
                             then row\<lparr>t_title := t_title updatedTask,
                                      t_description := t_description updatedTask,
                                      t_completed := t_completed updatedTask,
                                      t_updated_at := t_updated_at updatedTask,
                                      t_sync_status := t_sync_status updatedTask\<rparr>
                             else row)
                      (tasks st)\<rparr>
            in (Some updatedTask,
                insert_sync_queue ident ''update'' (JSON_stringify (task_json updatedTask))
                  (t_updated_at updatedTask) st1))"

text \<open>
  \<^verbatim>\<open>TaskService.deleteTask\<close>:
  \<^verbatim>\<open>UPDATE tasks SET is_deleted=1, updated_at=?, sync_status=? WHERE id=?\<close> and a queue
  row whose payload is \<^verbatim>\<open>{ id }\<close>.
\<close>

definition deleteTask :: "string \<Rightarrow> string \<Rightarrow> store \<Rightarrow> bool \<times> store" where
  "deleteTask now ident st =
     (case getTask ident st of
        None \<Rightarrow> (False, st)
      | Some existing \<Rightarrow>
          if t_is_deleted existing then (False, st)
          else
            let st1 = st\<lparr>tasks :=
                  map (\<lambda>row. if t_id row = ident
                             then row\<lparr>t_is_deleted := True, t_updated_at := now,
                                      t_sync_status := ''pending''\<rparr>
                             else row)
                      (tasks st)\<rparr>
            in (True,
                insert_sync_queue ident ''delete''
                  (JSON_stringify (JObject [(''id'', JString ident)])) now st1))"

section \<open>\<^verbatim>\<open>src/services/syncService.ts\<close>\<close>

text \<open>
  An axios call either resolves with the response body or throws. The remote server is a
  state machine over a state \<open>'p\<close> of its own: \<open>http_get\<close> answers
  \<^verbatim>\<open>GET /health\<close>, \<open>http_post\<close> answers \<^verbatim>\<open>POST /sync\<close> with a payload.
\<close>

datatype axios_result = Resolved json | Rejected

record 'p server =
  http_get :: "'p \<Rightarrow> axios_result \<times> 'p"
  http_post :: "'p \<Rightarrow> json \<Rightarrow> axios_result \<times> 'p"

text \<open>
  What a call of the service can touch: the database, the remote server, and the log of
  the queue rows whose payload was handed to \<^verbatim>\<open>axios.post\<close>, in the order of the calls.
  The log is not a variable of the code; it records the transmissions so that theorems can
  speak about them. \<^verbatim>\<open>console.error\<close> is not modelled.
\<close>

record 'p world =
  db :: store
  peer :: 'p
  posted :: "queue_row list"

text \<open>\<^verbatim>\<open>SyncService.checkConnectivity\<close>.\<close>

definition checkConnectivity :: "'p server \<Rightarrow> 'p world \<Rightarrow> bool \<times> 'p world" where
  "checkConnectivity srv w =
     (case http_get srv (peer w) of
        (Resolved body, p) \<Rightarrow> (True, w\<lparr>peer := p\<rparr>)
      | (Rejected, p) \<Rightarrow> (False, w\<lparr>peer := p\<rparr>))"

text \<open>
  The body of both loops: \<^verbatim>\<open>await axios.post(url, JSON.parse(item.data))\<close> inside
  \<^verbatim>\<open>try\<close>. \<open>True\<close> is the normal exit, \<open>False\<close> the \<^verbatim>\<open>catch\<close> branch. When
  \<^verbatim>\<open>JSON.parse\<close> throws, nothing is posted.
\<close>

definition post_item :: "'p server \<Rightarrow> queue_row \<Rightarrow> 'p world \<Rightarrow> bool \<times> 'p world" where
  "post_item srv item w =
     (case JSON_parse (q_data item) of
        Inl e \<Rightarrow> (False, w)
      | Inr payload \<Rightarrow>
          (case http_post srv (peer w) payload of
             (Resolved body, p) \<Rightarrow> (True, w\<lparr>peer := p, posted := posted w @ [item]\<rparr>)
           | (Rejected, p) \<Rightarrow> (False, w\<lparr>peer := p, posted := posted w @ [item]\<rparr>)))"

record SyncSummary =
  success :: bool
  synced_items :: nat
  failed_items :: nat

text \<open>\<^verbatim>\<open>SyncService.sync\<close>: \<^verbatim>\<open>SELECT * FROM sync_queue\<close>, then the loop over the rows.\<close>

fun sync_loop :: "'p server \<Rightarrow> queue_row list \<Rightarrow> nat \<Rightarrow> nat \<Rightarrow> 'p world \<Rightarrow> (nat \<times> nat) \<times> 'p world" where
  "sync_loop srv [] successCount failCount w = ((successCount, failCount), w)"
| "sync_loop srv (item # queue) successCount failCount w =
     (case post_item srv item w of
        (True, w1) \<Rightarrow> sync_loop srv queue (successCount + 1) failCount w1
      | (False, w1) \<Rightarrow> sync_loop srv queue successCount (failCount + 1) w1)"

definition sync :: "'p server \<Rightarrow> 'p world \<Rightarrow> SyncSummary \<times> 'p world" where
  "sync srv w =
     (let queue = sync_queue (db w) in
      case sync_loop srv queue 0 0 w of
        ((successCount, failCount), w1) \<Rightarrow>
          (\<lparr>success = (failCount = 0), synced_items = successCount,
            failed_items = failCount\<rparr>, w1))"

text \<open>
  \<^verbatim>\<open>SyncService.processSyncQueue\<close>: \<^verbatim>\<open>SELECT * FROM sync_queue LIMIT ?\<close>, then the
  loop; the result lists the task ids of the failed rows. The query is outside the
  \<^verbatim>\<open>try\<close>: when it is rejected the call throws, and nothing has been posted.
\<close>

record BatchSummary =
  b_success :: bool
  b_failed :: "string list"

fun batch_loop :: "'p server \<Rightarrow> queue_row list \<Rightarrow> string list \<Rightarrow> 'p world \<Rightarrow> string list \<times> 'p world" where
  "batch_loop srv [] failed w = (failed, w)"
| "batch_loop srv (item # queue) failed w =
     (case post_item srv item w of
        (True, w1) \<Rightarrow> batch_loop srv queue failed w1
      | (False, w1) \<Rightarrow> batch_loop srv queue (failed @ [q_task_id item]) w1)"

definition processSyncQueue :: "'p server \<Rightarrow> int \<Rightarrow> 'p world \<Rightarrow> (failure + BatchSummary) \<times> 'p world" where
  "processSyncQueue srv batchSize w =
     (case sql_limit batchSize (sync_queue (db w)) of
        Inl e \<Rightarrow> (Inl e, w)
      | Inr queue \<Rightarrow>
          (case batch_loop srv queue [] w of
             (failed, w1) \<Rightarrow> (Inr \<lparr>b_success = (failed = []), b_failed = failed\<rparr>, w1)))"

section \<open>Concrete runs\<close>

text \<open>
  Stores and servers on which the theorems below run the code. \<open>created_A\<close> is the store
  after one \<^verbatim>\<open>createTask({title: "A"})\<close> on an empty database, \<open>updated_A\<close> the store
  after a following \<^verbatim>\<open>updateTask(id, {title: "A2"})\<close> one day later.
\<close>

definition title_only :: "string \<Rightarrow> task_data" where
  "title_only s = \<lparr>d_title = Some s, d_description = None, d_completed = None\<rparr>"

definition created_A :: store where
  "created_A = snd (createTask ''t1'' ''2024-01-01T00:00:00.000Z'' (title_only ''A'') empty_store)"

definition updated_A :: store where
  "updated_A = snd (updateTask ''2024-01-02T00:00:00.000Z'' ''t1'' (title_only ''A2'') created_A)"

text \<open>A queue row with an id, as \<^verbatim>\<open>Database.addToSyncQueue\<close> inserts it.\<close>

definition queued_q1 :: store where
  "queued_q1 =
     \<lparr>tasks = [],
      sync_queue =
        [\<lparr>q_id = Some ''q1'', q_task_id = ''t1'', q_operation = ''create'',
          q_data = Stringified (JObject [(''id'', JString ''t1'')]), q_status = ''pending'',
          q_created_at = ''2024-01-01 00:00:00'', q_retry_count = 0,
          q_error_message = None, q_last_attempt = None\<rparr>]\<rparr>"

text \<open>
  A server that resolves every request with the same body, a server that cannot be
  reached, and a server that rejects the first post it receives and accepts the later ones
  (its state counts the posts).
\<close>

definition answering :: "json \<Rightarrow> unit server" where
  "answering body =
     \<lparr>http_get = (\<lambda>p. (Resolved JNull, p)),
      http_post = (\<lambda>p payload. (Resolved body, p))\<rparr>"

definition unreachable :: "unit server" where
  "unreachable =
     \<lparr>http_get = (\<lambda>p. (Rejected, p)),
      http_post = (\<lambda>p payload. (Rejected, p))\<rparr>"

definition failing_once :: "nat server" where
  "failing_once =
     \<lparr>http_get = (\<lambda>n. (Resolved JNull, n)),
      http_post = (\<lambda>n payload. (if n = 0 then Rejected else Resolved JNull, Suc n))\<rparr>"

definition success_R1 :: json where
  "success_R1 = JObject [(''status'', JString ''success''), (''server_id'', JString ''R1'')]"

definition conflict_B :: json where
  "conflict_B =
     JObject [(''status'', JString ''conflict''), (''server_id'', JString ''R1''),
              (''resolved_data'',
                 JObject [(''title'', JString ''B''),
                          (''updated_at'', JString ''2024-01-03T00:00:00.000Z'')])]"

definition start :: "store \<Rightarrow> 'p \<Rightarrow> 'p world" where
  "start st p = \<lparr>db = st, peer = p, posted = []\<rparr>"

lemmas run_defs =
  created_A_def updated_A_def queued_q1_def title_only_def empty_store_def start_def
  answering_def unreachable_def failing_once_def success_R1_def conflict_B_def
  createTask_def updateTask_def getTask_def insert_task_def insert_sync_queue_def
  String_of_def JSON_stringify_def task_json_def Let_def
  sync_def processSyncQueue_def post_item_def checkConnectivity_def sql_limit_def
  getSyncQueue_def select_pending_def row_to_item_def updateSyncStatus_def
  addToSyncQueue_def

section \<open>What one loop step and one pass do\<close>

text \<open>A step of either loop reads the row it is given and talks to the server; the
  database is not among the things it changes.\<close>

lemma post_item_db: "db (snd (post_item srv item w)) = db w"
  by (simp add: post_item_def split: sum.splits prod.splits axios_result.splits)

lemma post_item_posted:
  "posted (snd (post_item srv item w)) = posted w @ filter (\<lambda>row. \<not> isl (JSON_parse (q_data row))) [item]"
  by (simp add: post_item_def split: sum.splits prod.splits axios_result.splits)

lemma sync_loop_db: "db (snd (sync_loop srv queue s f w)) = db w"
proof (induction queue arbitrary: s f w)
  case Nil
  show ?case by simp
next
  case (Cons item queue)
  obtain ok w1 where step: "post_item srv item w = (ok, w1)"
    by (cases "post_item srv item w")
  have "db w1 = db w"
    using post_item_db [of srv item w] step by simp
  with Cons.IH step show ?case
    by (cases ok) simp_all
qed

lemma batch_loop_db: "db (snd (batch_loop srv queue failed w)) = db w"
proof (induction queue arbitrary: failed w)
  case Nil
  show ?case by simp
next
  case (Cons item queue)
  obtain ok w1 where step: "post_item srv item w = (ok, w1)"
    by (cases "post_item srv item w")
  have "db w1 = db w"
    using post_item_db [of srv item w] step by simp
  with Cons.IH step show ?case
    by (cases ok) simp_all
qed

lemma sync_db: "db (snd (sync srv w)) = db w"
  using sync_loop_db [of srv "sync_queue (db w)" 0 0 w]
  by (cases "sync_loop srv (sync_queue (db w)) 0 0 w") (auto simp: sync_def)

lemma processSyncQueue_db: "db (snd (processSyncQueue srv batchSize w)) = db w"
proof (cases "sql_limit batchSize (sync_queue (db w))")
  case (Inl e)
  then show ?thesis by (simp add: processSyncQueue_def)
next
  case (Inr queue)
  then show ?thesis
    using batch_loop_db [of srv queue "[]" w]
    by (cases "batch_loop srv queue [] w") (auto simp: processSyncQueue_def)
qed

text \<open>Every row is counted once, as a success or as a failure.\<close>

lemma sync_loop_counts:
  "fst (fst (sync_loop srv queue s f w)) + snd (fst (sync_loop srv queue s f w))
     = s + f + length queue"
proof (induction queue arbitrary: s f w)
  case Nil
  show ?case by simp
next
  case (Cons item queue)
  obtain ok w1 where step: "post_item srv item w = (ok, w1)"
    by (cases "post_item srv item w")
  show ?case
    using Cons.IH [of "s + 1" f w1] Cons.IH [of s "f + 1" w1] step
    by (cases ok) simp_all
qed

text \<open>The rows posted by a loop are the rows it was given whose data cell is JSON, in
  the order given.\<close>

lemma sync_loop_posted:
  "posted (snd (sync_loop srv queue s f w)) = posted w @ filter (\<lambda>row. \<not> isl (JSON_parse (q_data row))) queue"
proof (induction queue arbitrary: s f w)
  case Nil
  show ?case by simp
next
  case (Cons item queue)
  obtain ok w1 where step: "post_item srv item w = (ok, w1)"
    by (cases "post_item srv item w")
  have "posted w1 = posted w @ filter (\<lambda>row. \<not> isl (JSON_parse (q_data row))) [item]"
    using post_item_posted [of srv item w] step by simp
  with Cons.IH step show ?case
    by (cases ok) simp_all
qed


lemma sync_posted:
  "posted (snd (sync srv w)) = posted w @ filter (\<lambda>row. \<not> isl (JSON_parse (q_data row))) (sync_queue (db w))"
  using sync_loop_posted [of srv "sync_queue (db w)" 0 0 w]
  by (cases "sync_loop srv (sync_queue (db w)) 0 0 w") (auto simp: sync_def)




text \<open>A server that rejects every post sends every step into the \<^verbatim>\<open>catch\<close> branch.\<close>

lemma post_item_rejected:
  assumes rej: "\<forall>p payload. fst (http_post srv p payload) = Rejected"
  shows "fst (post_item srv item w) = False"
proof (cases "JSON_parse (q_data item)")
  case (Inl e)
  then show ?thesis by (simp add: post_item_def)
next
  case (Inr payload)
  obtain r p where hp: "http_post srv (peer w) payload = (r, p)"
    by (cases "http_post srv (peer w) payload")
  with rej have "r = Rejected" by (metis fst_conv)
  with Inr hp show ?thesis by (simp add: post_item_def)
qed

lemma sync_loop_all_rejected:
  "\<forall>p payload. fst (http_post srv p payload) = Rejected \<Longrightarrow>
     fst (sync_loop srv queue s f w) = (s, f + length queue)"
proof (induction queue arbitrary: f w)
  case Nil
  show ?case by simp
next
  case (Cons item queue)
  obtain ok w1 where step: "post_item srv item w = (ok, w1)"
    by (cases "post_item srv item w")
  have "ok = False"
    using post_item_rejected [OF Cons.prems, of item w] step by simp
  with Cons.IH [OF Cons.prems, of "f + 1" w1] step show ?case
    by simp
qed

section \<open>The batch query of \<^verbatim>\<open>getSyncQueue\<close>\<close>








section \<open>The claims\<close>

subsection \<open>C1: conflicts\<close>

text \<open>
  C1 says that a conflict outcome is resolved by last-write-wins on \<^verbatim>\<open>updated_at\<close>: the
  local task row ends equal to the remote's resolved fields when the remote timestamp is
  later or equal, and the queue entry is marked \<^verbatim>\<open>success\<close>.

  The code never reads the response of \<^verbatim>\<open>axios.post\<close>. Here the task was updated
  locally at 2024-01-02 (title A2) and the server answers every post with a conflict whose
  resolved data has title B and \<^verbatim>\<open>updated_at\<close> 2024-01-03: the pass counts both posts as
  synced, the task row keeps title A2 and its timestamp, and both queue entries stay
  \<^verbatim>\<open>pending\<close>.
\<close>

theorem sync_ignores_conflict_reply:
  "fst (sync (answering conflict_B) (start updated_A ())) = \<lparr>success = True, synced_items = 2, failed_items = 0\<rparr> \<and>
   map t_title (tasks (db (snd (sync (answering conflict_B) (start updated_A ()))))) = [''A2''] \<and>
   map t_updated_at (tasks (db (snd (sync (answering conflict_B) (start updated_A ()))))) = [''2024-01-02T00:00:00.000Z''] \<and>
   map q_status (sync_queue (db (snd (sync (answering conflict_B) (start updated_A ()))))) = [''pending'', ''pending'']"
  by (simp add: run_defs)

subsection \<open>C2: order of transmission\<close>




subsection \<open>C3: the connectivity probe\<close>

text \<open>
  C3 says that when the connectivity probe reports the server unreachable, a sync
  invocation returns with synced count 0 and failed count 0 and transmits nothing.

  \<^verbatim>\<open>sync\<close> does not call \<^verbatim>\<open>checkConnectivity\<close>. With an unreachable server and one
  queued entry, the probe answers false, and the pass still attempts the post and reports
  one failed item.
\<close>

theorem sync_does_not_probe:
  "fst (checkConnectivity unreachable (start created_A ())) = False \<and>
   fst (sync unreachable (start created_A ())) = \<lparr>success = False, synced_items = 0, failed_items = 1\<rparr> \<and>
   map q_operation (posted (snd (sync unreachable (start created_A ())))) = [''create'']"
  by (simp add: run_defs)

text \<open>
  C3, as the code has it: when the server is unreachable, so that the probe fails and
  every post is rejected, \<^verbatim>\<open>sync\<close> attempts a post for every queue row with a JSON data
  cell, returns synced count 0 and a failed count equal to the number of queue rows, and
  leaves the database, so every retry counter and status, unchanged.
\<close>

theorem sync_on_unreachable_server:
  assumes "fst (checkConnectivity srv w) = False"
      and "\<forall>p payload. fst (http_post srv p payload) = Rejected"
  shows "synced_items (fst (sync srv w)) = 0 \<and>
         failed_items (fst (sync srv w)) = length (sync_queue (db w)) \<and>
         posted (snd (sync srv w)) = posted w @ filter (\<lambda>row. \<not> isl (JSON_parse (q_data row))) (sync_queue (db w)) \<and>
         db (snd (sync srv w)) = db w"
proof -
  have "fst (sync_loop srv (sync_queue (db w)) 0 0 w) = (0, length (sync_queue (db w)))"
    using sync_loop_all_rejected [OF assms(2), of "sync_queue (db w)" 0 0 w] by simp
  then have counts: "synced_items (fst (sync srv w)) = 0"
      "failed_items (fst (sync srv w)) = length (sync_queue (db w))"
    by (cases "sync_loop srv (sync_queue (db w)) 0 0 w"; auto simp: sync_def)+
  from counts sync_db [of srv w] sync_posted [of srv w] show ?thesis by simp
qed

theorem sync_on_unreachable_server_witness:
  "fst (checkConnectivity unreachable (start created_A ())) = False \<and>
   (\<forall>p payload. fst (http_post unreachable p payload) = Rejected) \<and>
   synced_items (fst (sync unreachable (start created_A ()))) = 0 \<and>
   failed_items (fst (sync unreachable (start created_A ()))) = length (sync_queue created_A) \<and>
   db (snd (sync unreachable (start created_A ()))) = created_A"
proof -
  have probe: "fst (checkConnectivity unreachable (start created_A ())) = False"
    by (simp add: run_defs)
  have posts: "\<forall>p payload. fst (http_post unreachable p payload) = Rejected"
    by (simp add: unreachable_def)
  from probe posts sync_on_unreachable_server [OF probe posts] show ?thesis
    by (simp add: start_def)
qed

subsection \<open>C4: success outcomes\<close>

text \<open>
  C4 says that on a success outcome the pass writes the returned remote identifier to the
  task row's \<^verbatim>\<open>server_id\<close>, sets the task's sync marker to \<^verbatim>\<open>synced\<close>, stamps
  \<^verbatim>\<open>last_synced_at\<close> and marks the queue entry \<^verbatim>\<open>success\<close>.

  After \<^verbatim>\<open>createTask({title: "A"})\<close> and a pass against a server that answers success
  with remote id R1, the pass reports one synced item; the task row still has sync status
  \<^verbatim>\<open>pending\<close>, no \<^verbatim>\<open>server_id\<close> and no \<^verbatim>\<open>last_synced_at\<close>, and the queue entry is
  still \<^verbatim>\<open>pending\<close>.
\<close>

theorem sync_ignores_success_reply:
  "fst (sync (answering success_R1) (start created_A ())) = \<lparr>success = True, synced_items = 1, failed_items = 0\<rparr> \<and>
   map t_sync_status (tasks (db (snd (sync (answering success_R1) (start created_A ()))))) = [''pending''] \<and>
   map t_server_id (tasks (db (snd (sync (answering success_R1) (start created_A ()))))) = [None] \<and>
   map t_last_synced_at (tasks (db (snd (sync (answering success_R1) (start created_A ()))))) = [None] \<and>
   map q_status (sync_queue (db (snd (sync (answering success_R1) (start created_A ()))))) = [''pending'']"
  by (simp add: run_defs)

subsection \<open>C5: retries\<close>

text \<open>
  C5 says that an error outcome increments the entry's retry counter, and that an entry
  whose counter reaches the maximum (3) becomes a terminal \<^verbatim>\<open>error\<close> and leaves the
  batches.

  Four passes in a row against an unreachable server, on the store with one queued entry:
  the entry is posted in each of the four passes, its retry counter is still 0 and its
  status still \<^verbatim>\<open>pending\<close>, and \<^verbatim>\<open>getSyncQueue\<close> still returns it.
\<close>

theorem sync_never_counts_retries:
  "map q_operation (posted (snd (sync unreachable (snd (sync unreachable (snd (sync unreachable
        (snd (sync unreachable (start created_A ())))))))))) = [''create'', ''create'', ''create'', ''create''] \<and>
   fst (sync unreachable (snd (sync unreachable (snd (sync unreachable
        (snd (sync unreachable (start created_A ())))))))) = \<lparr>success = False, synced_items = 0, failed_items = 1\<rparr> \<and>
   map q_retry_count (sync_queue (db (snd (sync unreachable (snd (sync unreachable (snd (sync unreachable
        (snd (sync unreachable (start created_A ()))))))))))) = [0] \<and>
   map q_status (sync_queue (db (snd (sync unreachable (snd (sync unreachable (snd (sync unreachable
        (snd (sync unreachable (start created_A ()))))))))))) = [''pending''] \<and>
   \<not> isl (getSyncQueue 50 (db (snd (sync unreachable (snd (sync unreachable (snd (sync unreachable
        (snd (sync unreachable (start created_A ()))))))))))) \<and>
   map i_retry_count (projr (getSyncQueue 50 (db (snd (sync unreachable (snd (sync unreachable (snd (sync unreachable
        (snd (sync unreachable (start created_A ())))))))))))) = [0]"
  by (simp add: run_defs)

subsection \<open>C6: the batch query\<close>



subsection \<open>C7: marking an outcome twice\<close>



subsection \<open>C8: creating a task without a title\<close>

text \<open>
  C8 says that \<^verbatim>\<open>createTask\<close> fails with a ValidationError and persists neither a task
  row nor a queue entry when the title is absent or empty, and that with a present,
  non-empty title it assigns a new identifier and returns the created task.

  The title is mandatory by the README and NOT NULL in the schema, but
  \<^verbatim>\<open>createTask\<close> has no check and turns the title into a string before the insert:
  without a title it returns a task whose title is the text \<^verbatim>\<open>undefined\<close> and has
  written the task row and the queue entry; with the empty title it writes a row with the
  empty title.
\<close>

theorem createTask_accepts_missing_title:
  "fst (createTask ''t1'' ''2024-01-01T00:00:00.000Z'' \<lparr>d_title = None, d_description = None, d_completed = None\<rparr> empty_store)
     = Inr \<lparr>t_id = ''t1'', t_title = ''undefined'', t_description = [], t_completed = False,
            t_created_at = ''2024-01-01T00:00:00.000Z'',
            t_updated_at = ''2024-01-01T00:00:00.000Z'',
            t_is_deleted = False, t_sync_status = ''pending''\<rparr> \<and>
   map t_title (tasks (snd (createTask ''t1'' ''2024-01-01T00:00:00.000Z'' \<lparr>d_title = None, d_description = None, d_completed = None\<rparr> empty_store)))
     = [''undefined''] \<and>
   map q_operation
     (sync_queue (snd (createTask ''t1'' ''2024-01-01T00:00:00.000Z'' \<lparr>d_title = None, d_description = None, d_completed = None\<rparr> empty_store)))
     = [''create''] \<and>
   map t_title
     (tasks (snd (createTask ''t1'' ''2024-01-01T00:00:00.000Z'' (title_only []) empty_store)))
     = [[]]"
  by (simp add: run_defs)

subsection \<open>C9: a created task is pending and queued once\<close>

text \<open>
  C9: for every valid create input (a present, non-empty title), right after
  \<^verbatim>\<open>createTask\<close> returns, the created task has sync status \<^verbatim>\<open>pending\<close>, in the
  returned object and in its row, and exactly one queue entry exists for its identifier;
  that entry has operation \<^verbatim>\<open>create\<close>, and its payload is the full snapshot of the new
  task: the object of the task's eight fields, with the values of the returned task. The
  identifier is new: no task row and no queue row of the store carries it.
\<close>

theorem createTask_pending_with_one_create_entry:
  assumes "title \<noteq> []"
      and "uuid \<notin> set (map t_id (tasks st))"
      and "uuid \<notin> set (map q_task_id (sync_queue st))"
  shows "fst (createTask uuid now
                \<lparr>d_title = Some title, d_description = descr, d_completed = compl\<rparr> st)
           = Inr \<lparr>t_id = uuid, t_title = title,
                  t_description = (case descr of None \<Rightarrow> [] | Some d \<Rightarrow> d),
                  t_completed = (case compl of None \<Rightarrow> False | Some c \<Rightarrow> c),
                  t_created_at = now, t_updated_at = now,
                  t_is_deleted = False, t_sync_status = ''pending''\<rparr> \<and>
         filter (\<lambda>row. t_id row = uuid)
           (tasks (snd (createTask uuid now
                \<lparr>d_title = Some title, d_description = descr, d_completed = compl\<rparr> st)))
           = [\<lparr>t_id = uuid, t_title = title,
                t_description = (case descr of None \<Rightarrow> [] | Some d \<Rightarrow> d),
                t_completed = (case compl of None \<Rightarrow> False | Some c \<Rightarrow> c),
                t_created_at = now, t_updated_at = now,
                t_is_deleted = False, t_sync_status = ''pending'',
                t_server_id = None, t_last_synced_at = None\<rparr>] \<and>
         filter (\<lambda>row. q_task_id row = uuid)
           (sync_queue (snd (createTask uuid now
                \<lparr>d_title = Some title, d_description = descr, d_completed = compl\<rparr> st)))
           = [\<lparr>q_id = None, q_task_id = uuid, q_operation = ''create'',
                q_data = Stringified (JObject
                  [(''id'', JString uuid), (''title'', JString title),
                   (''description'', JString (case descr of None \<Rightarrow> [] | Some d \<Rightarrow> d)),
                   (''completed'', JBool (case compl of None \<Rightarrow> False | Some c \<Rightarrow> c)),
                   (''is_deleted'', JBool False),
                   (''sync_status'', JString ''pending''),
                   (''created_at'', JString now), (''updated_at'', JString now)]),
                q_status = ''pending'', q_created_at = now, q_retry_count = 0,
                q_error_message = None, q_last_attempt = None\<rparr>] \<and>
         map (\<lambda>row. JSON_parse (q_data row))
           (filter (\<lambda>row. q_task_id row = uuid)
             (sync_queue (snd (createTask uuid now
                \<lparr>d_title = Some title, d_description = descr, d_completed = compl\<rparr> st))))
           = [Inr (JObject
                  [(''id'', JString uuid), (''title'', JString title),
                   (''description'', JString (case descr of None \<Rightarrow> [] | Some d \<Rightarrow> d)),
                   (''completed'', JBool (case compl of None \<Rightarrow> False | Some c \<Rightarrow> c)),
                   (''is_deleted'', JBool False),
                   (''sync_status'', JString ''pending''),
                   (''created_at'', JString now), (''updated_at'', JString now)])]"
proof -
  have a: "filter (\<lambda>row. t_id row = uuid) (tasks st) = []"
    using assms(2) by (auto simp: filter_empty_conv)
  have b: "filter (\<lambda>row. q_task_id row = uuid) (sync_queue st) = []"
    using assms(3) by (auto simp: filter_empty_conv)
  from a b assms(2) show ?thesis
    by (simp add: createTask_def insert_task_def insert_sync_queue_def Let_def
        String_of_def JSON_stringify_def task_json_def)
qed

theorem createTask_pending_with_one_create_entry_witness:
  "''A'' \<noteq> [] \<and>
   ''t1'' \<notin> set (map t_id (tasks empty_store)) \<and>
   ''t1'' \<notin> set (map q_task_id (sync_queue empty_store)) \<and>
   fst (createTask ''t1'' ''2024-01-01T00:00:00.000Z''
          \<lparr>d_title = Some ''A'', d_description = None, d_completed = None\<rparr> empty_store)
     = Inr \<lparr>t_id = ''t1'', t_title = ''A'', t_description = [], t_completed = False,
            t_created_at = ''2024-01-01T00:00:00.000Z'',
            t_updated_at = ''2024-01-01T00:00:00.000Z'',
            t_is_deleted = False, t_sync_status = ''pending''\<rparr> \<and>
   map q_data (filter (\<lambda>row. q_task_id row = ''t1'')
      (sync_queue (snd (createTask ''t1'' ''2024-01-01T00:00:00.000Z''
          \<lparr>d_title = Some ''A'', d_description = None, d_completed = None\<rparr> empty_store))))
     = [Stringified (JObject
          [(''id'', JString ''t1''), (''title'', JString ''A''),
           (''description'', JString []), (''completed'', JBool False),
           (''is_deleted'', JBool False), (''sync_status'', JString ''pending''),
           (''created_at'', JString ''2024-01-01T00:00:00.000Z''),
           (''updated_at'', JString ''2024-01-01T00:00:00.000Z'')])]"
proof -
  have title: "''A'' \<noteq> []" by simp
  have fresh: "''t1'' \<notin> set (map t_id (tasks empty_store))"
      "''t1'' \<notin> set (map q_task_id (sync_queue empty_store))"
    by (simp_all add: empty_store_def)
  from title fresh
    createTask_pending_with_one_create_entry
      [OF title fresh, of "''2024-01-01T00:00:00.000Z''" None None]
  show ?thesis
    by simp
qed

subsection \<open>C10: a pass writes nothing\<close>

text \<open>
  C10: a reconciliation pass performs no store writes. For every store, every server and
  every batch size, the database after \<^verbatim>\<open>sync\<close> and after \<^verbatim>\<open>processSyncQueue\<close> is
  the database before it, task rows and queue rows alike; the outcomes show in the
  returned summary only, where every queue row is counted once as synced or as failed.
\<close>

theorem reconciliation_writes_nothing:
  "db (snd (sync srv w)) = db w \<and>
   db (snd (processSyncQueue srv batchSize w)) = db w \<and>
   synced_items (fst (sync srv w)) + failed_items (fst (sync srv w))
     = length (sync_queue (db w)) \<and>
   success (fst (sync srv w)) = (failed_items (fst (sync srv w)) = 0)"
proof -
  have c: "synced_items (fst (sync srv w)) + failed_items (fst (sync srv w))
     = length (sync_queue (db w))"
    using sync_loop_counts [of srv "sync_queue (db w)" 0 0 w]
    by (cases "sync_loop srv (sync_queue (db w)) 0 0 w") (auto simp: sync_def)
  have d: "success (fst (sync srv w)) = (failed_items (fst (sync srv w)) = 0)"
    by (cases "sync_loop srv (sync_queue (db w)) 0 0 w") (auto simp: sync_def)
  from c d sync_db [of srv w] processSyncQueue_db [of srv batchSize w] show ?thesis
    by simp
qed

end
